theory Spec2Isabelle
  imports Main "HOL-Library.Word"
begin

section \<open>Go values shared by the example programs\<close>

text \<open>
  Go's \<^verbatim>\<open>int\<close> is a machine integer; on the 64-bit platforms it has 64 bits and
  \<^verbatim>\<open>++\<close> wraps around.  It is modelled as a 64-bit word, read as two's complement
  by \<open>sint\<close>.  Addressable struct variables live in stores indexed by an address; a
  pointer that does not point to a struct (\<^verbatim>\<open>nil\<close>) is an address outside the store,
  and dereferencing it is a run-time panic.
\<close>

type_synonym go_int = "64 word"

type_synonym addr = nat

datatype panic = NilPointerDereference | IndexOutOfRange

text \<open>The verb \<^verbatim>\<open>%d\<close> of \<^verbatim>\<open>fmt.Printf\<close>: signed decimal digits.\<close>

fun digits :: "nat \<Rightarrow> string" where
  "digits n =
     (if n < 10 then [''0123456789'' ! n]
      else digits (n div 10) @ [''0123456789'' ! (n mod 10)])"

declare digits.simps [simp del]

definition fmt_d :: "go_int \<Rightarrow> string" where
  "fmt_d n = (if sint n < 0 then ''-'' @ digits (nat (- sint n)) else digits (nat (sint n)))"

definition newline :: string where
  "newline = [CHR 0x0A]"

section \<open>Structs, value receivers and pointer receivers (go\_4\_structs\_interfaces.go)\<close>

record SenderA =
  FirstName :: string
  MessageCount :: go_int

record SenderB =
  FirstName :: string
  MessageCount :: go_int

text \<open>
  The program state: the addressable \<^verbatim>\<open>SenderA\<close> and \<^verbatim>\<open>SenderB\<close> variables and what
  has been printed so far.
\<close>

record world =
  varsA :: "addr \<rightharpoonup> SenderA"
  varsB :: "addr \<rightharpoonup> SenderB"
  stdout :: string

text \<open>
  \<^verbatim>\<open>func (s SenderA) Send(message string)\<close> of go\_4\_structs\_interfaces.go.  The receiver
  \<open>s\<close> is the callee's own copy; the function returns that local copy as it is when
  the method returns, together with the state.
\<close>

definition SenderA_Send :: "SenderA \<Rightarrow> string \<Rightarrow> world \<Rightarrow> SenderA \<times> world" where
  "SenderA_Send s message w =
     (let s = s\<lparr>SenderA.MessageCount := SenderA.MessageCount s + 1\<rparr>;
          w = w\<lparr>stdout := stdout w @ ''Send '' @ fmt_d (SenderA.MessageCount s) @ '' from ''
                 @ SenderA.FirstName s @ '': '' @ message @ newline\<rparr>
      in (s, w))"

text \<open>
  The same method in the other revision of the file (unnamed/part\_000): the count is
  no longer printed, and the local copy's name is overwritten before returning.
\<close>

definition SenderA_Send_part000 :: "SenderA \<Rightarrow> string \<Rightarrow> world \<Rightarrow> SenderA \<times> world" where
  "SenderA_Send_part000 s message w =
     (let s = s\<lparr>SenderA.MessageCount := SenderA.MessageCount s + 1\<rparr>;
          w = w\<lparr>stdout := stdout w @ ''Send from '' @ SenderA.FirstName s @ '': ''
                 @ message @ newline\<rparr>;
          s = s\<lparr>SenderA.FirstName := ''what will happen????''\<rparr>
      in (s, w))"

text \<open>
  A call \<^verbatim>\<open>x.Send(message)\<close> of a value-receiver method on the variable at address
  \<open>a\<close>: the struct is read and copied into the callee, the callee's copy is dropped
  when the method returns.
\<close>

definition value_receiver_call ::
  "(SenderA \<Rightarrow> string \<Rightarrow> world \<Rightarrow> SenderA \<times> world) \<Rightarrow> addr \<Rightarrow> string \<Rightarrow> world \<Rightarrow> panic + world"
where
  "value_receiver_call method a message w =
     (case varsA w a of
        None \<Rightarrow> Inl NilPointerDereference
      | Some s \<Rightarrow> Inr (snd (method s message w)))"

text \<open>
  \<^verbatim>\<open>func (s *SenderB) Send(message string)\<close>: the receiver is a pointer, every access
  goes through it to the caller's struct.
\<close>

definition SenderB_Send :: "addr \<Rightarrow> string \<Rightarrow> world \<Rightarrow> panic + world" where
  "SenderB_Send s message w =
     (case varsB w s of
        None \<Rightarrow> Inl NilPointerDereference
      | Some v \<Rightarrow>
          let v = v\<lparr>SenderB.MessageCount := SenderB.MessageCount v + 1\<rparr>;
              w = w\<lparr>varsB := (varsB w)(s \<mapsto> v)\<rparr>;
              w = w\<lparr>stdout := stdout w @ ''Send '' @ fmt_d (SenderB.MessageCount v) @ '' from ''
                     @ SenderB.FirstName v @ '': '' @ message @ newline\<rparr>
          in Inr w)"

text \<open>The pointer-receiver method as it stands in unnamed/part\_000.\<close>

definition SenderB_Send_part000 :: "addr \<Rightarrow> string \<Rightarrow> world \<Rightarrow> panic + world" where
  "SenderB_Send_part000 s message w =
     (case varsB w s of
        None \<Rightarrow> Inl NilPointerDereference
      | Some v \<Rightarrow>
          let v = v\<lparr>SenderB.MessageCount := SenderB.MessageCount v + 1\<rparr>;
              w = w\<lparr>varsB := (varsB w)(s \<mapsto> v)\<rparr>;
              w = w\<lparr>stdout := stdout w @ ''Send '' @ fmt_d (SenderB.MessageCount v) @ '' from ''
                     @ SenderB.FirstName v @ '': '' @ message @ newline\<rparr>
          in Inr w)"

text \<open>Consecutive calls of one method, one per message, as in \<^verbatim>\<open>runSenders\<close>.\<close>

fun send_all :: "(string \<Rightarrow> world \<Rightarrow> panic + world) \<Rightarrow> string list \<Rightarrow> world \<Rightarrow> panic + world" where
  "send_all call [] w = Inr w"
| "send_all call (message # rest) w =
     (case call message w of Inl e \<Rightarrow> Inl e | Inr w' \<Rightarrow> send_all call rest w')"

text \<open>
  The package-level variables \<^verbatim>\<open>senderA = SenderA{FirstName: "A"}\<close> and
  \<^verbatim>\<open>senderB = SenderB{FirstName: "B"}\<close>; the omitted \<^verbatim>\<open>MessageCount\<close> is 0.
\<close>

definition senderA :: addr where
  "senderA = 0"

definition senderB :: addr where
  "senderB = 0"

definition initial_world :: world where
  "initial_world =
     \<lparr>varsA = [senderA \<mapsto> \<lparr>SenderA.FirstName = ''A'', MessageCount = 0\<rparr>],
      varsB = [senderB \<mapsto> \<lparr>SenderB.FirstName = ''B'', MessageCount = 0\<rparr>],
      stdout = ''''\<rparr>"

text \<open>What a call printed, when it returned.\<close>

definition printed :: "panic + world \<Rightarrow> string option" where
  "printed r = (case r of Inl e \<Rightarrow> None | Inr w \<Rightarrow> Some (stdout w))"

text \<open>
  A \<^verbatim>\<open>SenderB\<close> whose count is the largest \<^verbatim>\<open>int\<close>, as
  \<^verbatim>\<open>SenderB{FirstName: "B", MessageCount: math.MaxInt64}\<close>.
\<close>

definition max_count_world :: world where
  "max_count_world =
     \<lparr>varsA = Map.empty,
      varsB = [senderB \<mapsto> \<lparr>SenderB.FirstName = ''B'', MessageCount = 9223372036854775807\<rparr>],
      stdout = ''''\<rparr>"

text \<open>The \<^verbatim>\<open>MessageCount\<close> of the struct at an address after a call, as an integer.\<close>

definition countB :: "addr \<Rightarrow> panic + world \<Rightarrow> int option" where
  "countB p r =
     (case r of
        Inl e \<Rightarrow> None
      | Inr w \<Rightarrow> map_option (\<lambda>v. sint (SenderB.MessageCount v)) (varsB w p))"

section \<open>Value and pointer receivers on small structs (unnamed/part\_001)\<close>

record user =
  firstName :: string

record person =
  firstName :: string

text \<open>
  \<^verbatim>\<open>func (u user) updateNameAndCopy(newName string) user\<close>: the receiver \<open>u\<close> is the
  callee's copy, which is changed and returned.
\<close>

definition updateNameAndCopy :: "user \<Rightarrow> string \<Rightarrow> user" where
  "updateNameAndCopy u newName = (let u = u\<lparr>user.firstName := newName\<rparr> in u)"

text \<open>
  A call \<^verbatim>\<open>x.updateNameAndCopy(newName)\<close> on the \<^verbatim>\<open>user\<close> variable at an address: the
  variable is read and copied; the call yields the returned struct and the variables
  as they are after the call.
\<close>

definition call_updateNameAndCopy ::
  "addr \<Rightarrow> string \<Rightarrow> (addr \<rightharpoonup> user) \<Rightarrow> panic + (user \<times> (addr \<rightharpoonup> user))"
where
  "call_updateNameAndCopy a newName users =
     (case users a of
        None \<Rightarrow> Inl NilPointerDereference
      | Some u \<Rightarrow> Inr (updateNameAndCopy u newName, users))"

text \<open>\<^verbatim>\<open>func (p *person) updateMyName(newName string)\<close>: the write goes through the pointer.\<close>

definition updateMyName :: "addr \<Rightarrow> string \<Rightarrow> (addr \<rightharpoonup> person) \<Rightarrow> panic + (addr \<rightharpoonup> person)" where
  "updateMyName p newName persons =
     (case persons p of
        None \<Rightarrow> Inl NilPointerDereference
      | Some v \<Rightarrow> Inr (persons(p \<mapsto> v\<lparr>person.firstName := newName\<rparr>)))"

section \<open>Deferred cleanup and process exit (unnamed/part\_001, \<^verbatim>\<open>main\<close>)\<close>

text \<open>
  What the process does that can be observed: a line on standard output, a line on the
  logger, closing the database connection, and leaving with an exit status.
\<close>

datatype event = Stdout string | Log string | ConnClose | OsExit int

text \<open>
  The running \<^verbatim>\<open>main\<close>: the events so far and the stack of deferred calls, the most
  recently deferred first.
\<close>

record frame =
  trace :: "event list"
  deferred :: "event list"

text \<open>\<^verbatim>\<open>defer\<close>: the call is pushed on the stack of deferred calls.\<close>

definition go_defer :: "event \<Rightarrow> frame \<Rightarrow> frame" where
  "go_defer e f = f\<lparr>deferred := e # deferred f\<rparr>"

definition fmt_Println :: "string \<Rightarrow> frame \<Rightarrow> frame" where
  "fmt_Println s f = f\<lparr>trace := trace f @ [Stdout (s @ newline)]\<rparr>"

text \<open>
  \<^verbatim>\<open>log.Fatal\<close> writes the message and calls \<^verbatim>\<open>os.Exit(1)\<close>: the process ends there and
  the deferred calls do not run.
\<close>

definition log_Fatal :: "string \<Rightarrow> frame \<Rightarrow> event list" where
  "log_Fatal msg f = trace f @ [Log msg, OsExit 1]"

text \<open>Returning from \<^verbatim>\<open>main\<close> runs the deferred calls, last deferred first, and exits with 0.\<close>

definition return_from_main :: "frame \<Rightarrow> event list" where
  "return_from_main f = trace f @ deferred f @ [OsExit 0]"

text \<open>A panic runs the deferred calls as well, then the process exits with status 2.\<close>

definition go_panic :: "panic \<Rightarrow> frame \<Rightarrow> event list" where
  "go_panic e f = trace f @ deferred f @ [Log ''panic'', OsExit 2]"

text \<open>
  Section 7 of \<^verbatim>\<open>main\<close>, the connection setup.  \<^verbatim>\<open>sql.Open\<close> and \<^verbatim>\<open>db.Conn\<close> belong to
  the standard library; whether each returns an error is a parameter.  The result is
  either the finished run (\<open>Inl\<close>) or the frame with which \<^verbatim>\<open>main\<close> goes on.
\<close>

definition syntax_error_message :: string where
  "syntax_error_message = ''Killing program, check the host/port/user string for syntax errors.''"

definition unreachable_message :: string where
  "unreachable_message = ''Killing program, couldn'' @ [CHR 0x27] @ ''t reach the db for a connection.''"

definition connection_setup :: "bool \<Rightarrow> bool \<Rightarrow> frame \<Rightarrow> event list + frame" where
  "connection_setup open_err conn_err f =
     (if open_err then Inl (log_Fatal syntax_error_message f)
      else if conn_err then Inl (log_Fatal unreachable_message f)
      else Inr (go_defer ConnClose f))"

text \<open>Sections 1 to 6 of \<^verbatim>\<open>main\<close>, the code after the connection setup.\<close>

definition after_setup :: "frame \<Rightarrow> event list" where
  "after_setup f =
     (let whizzBang = ''whizzbang!'';
          f = fmt_Println whizzBang f;
          whizzBang = whizzBang @ '' more stuff '';
          f = fmt_Println whizzBang f;
          users = [0 \<mapsto> \<lparr>user.firstName = ''''\<rparr>]
      in case call_updateNameAndCopy 0 ''alice'' users of
           Inl e \<Rightarrow> go_panic e f
         | Inr (firstUser, users) \<Rightarrow>
             let f = fmt_Println (user.firstName firstUser) f;
                 persons = [0 \<mapsto> \<lparr>person.firstName = ''''\<rparr>]
             in case updateMyName 0 ''jordan'' persons of
                  Inl e \<Rightarrow> go_panic e f
                | Inr persons \<Rightarrow>
                    (case persons 0 of
                       None \<Rightarrow> go_panic NilPointerDereference f
                     | Some firstPerson \<Rightarrow>
                         return_from_main (fmt_Println (person.firstName firstPerson) f)))"

definition main_part001 :: "bool \<Rightarrow> bool \<Rightarrow> event list" where
  "main_part001 open_err conn_err =
     (let f = \<lparr>trace = [], deferred = []\<rparr>;
          f = go_defer (Stdout (''I print after main returns and before whatever called main continues.'' @ newline)) f;
          f = go_defer (Stdout (''I print after main returns and before whatever called main continues.'' @ newline)) f
      in case connection_setup open_err conn_err f of
           Inl run \<Rightarrow> run
         | Inr f \<Rightarrow> after_setup f)"

section \<open>Maps (unnamed/part\_000, \<^verbatim>\<open>main\<close>)\<close>

record User =
  Name :: string
  Password :: string

text \<open>
  A Go map is either \<^verbatim>\<open>nil\<close> (declared with \<^verbatim>\<open>var\<close>, never made) or a finite table
  from keys to values.
\<close>

datatype ('k, 'v) go_map = NilMap | MakeMap "'k \<rightharpoonup> 'v"

definition entries :: "('k, 'v) go_map \<Rightarrow> 'k \<rightharpoonup> 'v" where
  "entries m = (case m of NilMap \<Rightarrow> Map.empty | MakeMap t \<Rightarrow> t)"

text \<open>
  The index expression in its two-value form, \<^verbatim>\<open>v, ok := m[key]\<close>; \<open>zero\<close> is the zero
  value of the map's value type.
\<close>

definition map_index :: "'v \<Rightarrow> ('k, 'v) go_map \<Rightarrow> 'k \<Rightarrow> 'v \<times> bool" where
  "map_index zero m key =
     (case m of
        NilMap \<Rightarrow> (zero, False)
      | MakeMap t \<Rightarrow> (case t key of None \<Rightarrow> (zero, False) | Some v \<Rightarrow> (v, True)))"

text \<open>The local variables of the first read, and the read itself for a key.\<close>

record age_locals =
  nameToAge :: "(string, go_int) go_map"
  bobAge :: go_int
  keyExists :: bool
  console :: string

definition read_age :: "string \<Rightarrow> age_locals \<Rightarrow> age_locals" where
  "read_age key l =
     (let (v, ok) = map_index 0 (nameToAge l) key
      in l\<lparr>bobAge := v, age_locals.keyExists := ok\<rparr>)"

definition print_age :: "age_locals \<Rightarrow> age_locals" where
  "print_age l =
     (if age_locals.keyExists l
      then l\<lparr>age_locals.console := age_locals.console l @ fmt_d (bobAge l) @ newline\<rparr>
      else l\<lparr>age_locals.console := age_locals.console l @ fmt_d (bobAge l) @ newline\<rparr>)"

text \<open>The read of the struct-keyed map; \<^verbatim>\<open>fmt.Println\<close> prints a struct as \<^verbatim>\<open>{Name Password}\<close>.\<close>

record buddy_locals =
  buddyMap :: "(User, User) go_map"
  dorisBuddyUser :: User
  keyExists :: bool
  console :: string

definition zero_User :: User where
  "zero_User = \<lparr>Name = '''', Password = ''''\<rparr>"

definition read_buddy :: "User \<Rightarrow> buddy_locals \<Rightarrow> buddy_locals" where
  "read_buddy key l =
     (let (v, ok) = map_index zero_User (buddyMap l) key
      in l\<lparr>dorisBuddyUser := v, buddy_locals.keyExists := ok\<rparr>)"

definition print_buddy :: "buddy_locals \<Rightarrow> buddy_locals" where
  "print_buddy l =
     (if buddy_locals.keyExists l
      then l\<lparr>buddy_locals.console := buddy_locals.console l @ ''{'' @ Name (dorisBuddyUser l)
               @ '' '' @ Password (dorisBuddyUser l) @ ''}'' @ newline\<rparr>
      else l)"

text \<open>The map literal \<^verbatim>\<open>map[string]int{"Bob": 42, "Alice": 33}\<close> of the example.\<close>

definition example_ages :: age_locals where
  "example_ages =
     \<lparr>nameToAge = MakeMap [''Bob'' \<mapsto> 42, ''Alice'' \<mapsto> 33], bobAge = 0,
      keyExists = False, console = ''''\<rparr>"

section \<open>Goroutines and channels (go\_3\_goroutines.go)\<close>

subsection \<open>The non-blocking send on \<^verbatim>\<open>messageChan\<close>\<close>

text \<open>
  \<^verbatim>\<open>messageChan := make(chan string, 3)\<close>.  The state shared by \<^verbatim>\<open>main\<close> and the printing
  goroutine: the values buffered in the channel, oldest first, and the lines printed.
\<close>

record messaging =
  messageChan :: "string list"
  printed_lines :: "string list"

definition messageChan_cap :: nat where
  "messageChan_cap = 3"

text \<open>
  One turn of the printing goroutine's loop: it takes the oldest message out of the
  channel and prints it; with nothing buffered it stays blocked in its \<^verbatim>\<open>select\<close>.
\<close>

definition receive_message :: "messaging \<Rightarrow> messaging" where
  "receive_message st =
     (case messageChan st of
        [] \<Rightarrow> st
      | message # rest \<Rightarrow>
          st\<lparr>messageChan := rest, printed_lines := printed_lines st @ [message]\<rparr>)"

text \<open>
  The \<^verbatim>\<open>select\<close> of the sending loop: the send case is ready when the buffer has room,
  otherwise the \<^verbatim>\<open>default\<close> case runs.
\<close>

definition drop_notice :: "string \<Rightarrow> string" where
  "drop_notice message = ''messageChan full, dropping message: '' @ message"

definition try_send :: "string \<Rightarrow> messaging \<Rightarrow> messaging" where
  "try_send message st =
     (if length (messageChan st) < messageChan_cap
      then st\<lparr>messageChan := messageChan st @ [message]\<rparr>
      else st\<lparr>printed_lines := printed_lines st @ [drop_notice message]\<rparr>)"

text \<open>
  The loop over the messages.  The printing goroutine runs concurrently; each message
  comes with the number of turns that goroutine takes before \<^verbatim>\<open>main\<close> reaches the
  \<^verbatim>\<open>select\<close> for that message.
\<close>

fun send_messages :: "(nat \<times> string) list \<Rightarrow> messaging \<Rightarrow> messaging" where
  "send_messages [] st = st"
| "send_messages ((turns, message) # rest) st =
     send_messages rest (try_send message ((receive_message ^^ turns) st))"

definition messages :: "string list" where
  "messages = [''foo'', ''bar'', ''bazz'', ''wham'', ''whack'', ''bang'', ''pop'', ''zow'']"

definition messaging_start :: messaging where
  "messaging_start = \<lparr>messageChan = [], printed_lines = []\<rparr>"

text \<open>
  The sending goroutine of unnamed/part\_000, on \<^verbatim>\<open>make(chan string, 1024)\<close>: one turn of
  its endless loop.
\<close>

definition try_send_foo :: "messaging \<Rightarrow> messaging" where
  "try_send_foo st =
     (if length (messageChan st) < 1024
      then st\<lparr>messageChan := messageChan st @ [''foo''],
              printed_lines := printed_lines st @ [''sent a message'']\<rparr>
      else st\<lparr>printed_lines := printed_lines st @ [''channel is full!'']\<rparr>)"

subsection \<open>The stock ticker pipeline\<close>

text \<open>
  \<^verbatim>\<open>stockSymbolSpammer\<close>.  \<^verbatim>\<open>rand.Intn\<close> is the standard library's; the numbers it returns
  are a parameter, one per turn of the endless loop.  Indexing a slice outside its
  bounds panics.  The function gives the values sent on the channel during these turns,
  after those already sent, and the panic that ended the goroutine, if any.
\<close>

definition stockSymbols :: "string list" where
  "stockSymbols = [''AAPL'', ''GOOG'', ''FB'', ''AMZN'']"

definition slice_index :: "'a list \<Rightarrow> go_int \<Rightarrow> panic + 'a" where
  "slice_index xs i =
     (if 0 \<le> sint i \<and> sint i < int (length xs) then Inr (xs ! nat (sint i))
      else Inl IndexOutOfRange)"

fun stockSymbolSpammer :: "go_int list \<Rightarrow> string list \<Rightarrow> string list \<times> panic option" where
  "stockSymbolSpammer [] stockChan = (stockChan, None)"
| "stockSymbolSpammer (r # draws) stockChan =
     (case slice_index stockSymbols r of
        Inl e \<Rightarrow> (stockChan, Some e)
      | Inr randomStock \<Rightarrow> stockSymbolSpammer draws (stockChan @ [randomStock]))"

text \<open>
  \<^verbatim>\<open>stockEmojiWorker\<close>.  The worker's variables: the count, the icons printed and the
  number of symbols it has taken from the channel.  The loop runs over the symbols the
  worker receives; it ends when they are used up and the channel is closed, or at the
  \<^verbatim>\<open>break\<close>.
\<close>

record worker =
  emojiCount :: go_int
  icons :: string
  received :: nat

fun worker_loop :: "string \<Rightarrow> string \<Rightarrow> go_int \<Rightarrow> string list \<Rightarrow> worker \<Rightarrow> worker" where
  "worker_loop ticker icon maxEmojis [] st = st"
| "worker_loop ticker icon maxEmojis (stockSymbol # rest) st =
     (let st = st\<lparr>received := received st + 1\<rparr>;
          st = (if stockSymbol = ticker
                then st\<lparr>emojiCount := emojiCount st + 1, icons := icons st @ icon\<rparr>
                else st)
      in if maxEmojis <s emojiCount st then st
         else worker_loop ticker icon maxEmojis rest st)"

definition stockEmojiWorker ::
  "string list \<Rightarrow> bool list \<Rightarrow> string \<Rightarrow> string \<Rightarrow> go_int \<Rightarrow> worker \<times> bool list"
where
  "stockEmojiWorker stockChan doneChan ticker icon maxEmojis =
     (let st = worker_loop ticker icon maxEmojis stockChan
                 \<lparr>emojiCount = 0, icons = '''', received = 0\<rparr>
      in (st, doneChan @ [True]))"

text \<open>The tickers of the four workers that \<^verbatim>\<open>main\<close> starts.\<close>

definition worker_tickers :: "string list" where
  "worker_tickers = [''AAPL'', ''GOOG'', ''FB'', ''AMZN'']"

subsection \<open>The driver loop of \<^verbatim>\<open>main\<close>\<close>

text \<open>
  Each turn of the loop blocks in \<^verbatim>\<open>select\<close> until a value arrives on one of the two
  channels; the run of the loop is determined by the sequence of cases that fire.  With
  no further arrival the loop stays blocked in \<^verbatim>\<open>select\<close>.  Besides the two variables of
  \<^verbatim>\<open>main\<close>, the state records whether \<^verbatim>\<open>main\<close> has returned and how many turns the
  loop has taken.
\<close>

datatype select_case = FromTickerChan | FromWorkerDoneChan

record driver =
  finishedWorkers :: go_int
  exitMessage :: string
  returned :: bool
  turns :: nat

fun driver_loop :: "go_int \<Rightarrow> select_case list \<Rightarrow> driver \<Rightarrow> driver" where
  "driver_loop workers [] st = st"
| "driver_loop workers (FromTickerChan # rest) st =
     st\<lparr>exitMessage := newline @ newline @ ''got a timeout message'',
        returned := True, turns := turns st + 1\<rparr>"
| "driver_loop workers (FromWorkerDoneChan # rest) st =
     (let st = st\<lparr>finishedWorkers := finishedWorkers st + 1, turns := turns st + 1\<rparr>
      in if finishedWorkers st = workers
         then st\<lparr>exitMessage := newline @ newline @ ''heard from all the workers'',
                 returned := True\<rparr>
         else driver_loop workers rest st)"

definition main_driver :: "select_case list \<Rightarrow> driver" where
  "main_driver arrivals =
     (let workers = 4
      in driver_loop workers arrivals
           \<lparr>finishedWorkers = 0, exitMessage = '''', returned = False, turns = 0\<rparr>)"

section \<open>Verification\<close>

subsection \<open>Machine arithmetic\<close>

lemma sint_succ:
  fixes x :: go_int
  assumes "sint x \<noteq> 9223372036854775807"
  shows "sint (x + 1) = sint x + 1"
proof -
  have lo: "- (2 ^ 63) \<le> sint x" and hi: "sint x < 2 ^ 63"
    using sint_ge [of x] sint_lt [of x] by simp_all
  have "sint (x + 1) = signed_take_bit 63 (sint x + 1)"
    by (simp add: sint_word_ariths)
  also have "\<dots> = sint x + 1"
    by (rule signed_take_bit_int_eq_self) (use lo hi assms in simp_all)
  finally show ?thesis .
qed

lemma sint_succ_max:
  fixes x :: go_int
  assumes "sint x = 9223372036854775807"
  shows "sint (x + 1) = - 9223372036854775808"
proof -
  have "word_of_int (sint x) = (word_of_int 9223372036854775807 :: go_int)"
    using assms by simp
  then have "x = 9223372036854775807" by simp
  then show ?thesis by simp
qed

lemma sint_of_nat_small:
  assumes "n < 9223372036854775808"
  shows "sint (of_nat n :: go_int) = int n"
proof -
  have "sint (of_nat n :: go_int) = signed_take_bit 63 (int n)"
    by (simp add: signed_of_nat)
  also have "\<dots> = int n"
    by (rule signed_take_bit_int_eq_self) (use assms in simp_all)
  finally show ?thesis .
qed

subsection \<open>Value receivers leave the caller's struct alone\<close>

lemma SenderA_Send_frame: "varsA (snd (SenderA_Send s m w)) = varsA w"
  by (simp add: SenderA_Send_def Let_def)

lemma SenderA_Send_part000_frame: "varsA (snd (SenderA_Send_part000 s m w)) = varsA w"
  by (simp add: SenderA_Send_part000_def Let_def)

lemma send_all_value_receiver:
  assumes frame: "\<And>s m w. varsA (snd (method s m w)) = varsA w"
    and var: "varsA w a = Some s"
  shows "\<exists>w'. send_all (value_receiver_call method a) msgs w = Inr w' \<and> varsA w' = varsA w"
  using var
proof (induction msgs arbitrary: w)
  case Nil
  then show ?case by simp
next
  case (Cons m msgs)
  define w1 where "w1 = snd (method s m w)"
  have call: "value_receiver_call method a m w = Inr w1"
    using Cons.prems by (simp add: value_receiver_call_def w1_def)
  have same: "varsA w1 = varsA w"
    by (simp add: w1_def frame)
  with Cons.prems have "varsA w1 a = Some s" by simp
  from Cons.IH [OF this] obtain w' where
    "send_all (value_receiver_call method a) msgs w1 = Inr w'" "varsA w' = varsA w1"
    by blast
  with call same show ?case by simp
qed

text \<open>
  Claim C8.  A value-receiver \<^verbatim>\<open>Send\<close> works on a copy: after any sequence of calls
  with any messages on a \<^verbatim>\<open>SenderA\<close> variable, every call has returned and the
  variable still holds the struct it held before, with the same \<^verbatim>\<open>MessageCount\<close>
  and the same \<^verbatim>\<open>FirstName\<close>.  This holds for both revisions of the method.
\<close>

theorem SenderA_Send_caller_unchanged:
  assumes "varsA w a = Some s"
  shows "(\<exists>w'. send_all (value_receiver_call SenderA_Send a) msgs w = Inr w' \<and>
            varsA w' = varsA w \<and> varsA w' a = Some s) \<and>
         (\<exists>w'. send_all (value_receiver_call SenderA_Send_part000 a) msgs w = Inr w' \<and>
            varsA w' = varsA w \<and> varsA w' a = Some s)"
  using send_all_value_receiver [of SenderA_Send w a s msgs, OF SenderA_Send_frame assms]
    send_all_value_receiver [of SenderA_Send_part000 w a s msgs, OF SenderA_Send_part000_frame assms]
    assms
  by auto

theorem SenderA_Send_caller_unchanged_witness:
  "varsA initial_world senderA = Some \<lparr>SenderA.FirstName = ''A'', MessageCount = 0\<rparr> \<and>
   (\<exists>w'. send_all (value_receiver_call SenderA_Send senderA)
            [''message one'', ''message two'', ''message three''] initial_world = Inr w' \<and>
      varsA w' senderA = Some \<lparr>SenderA.FirstName = ''A'', MessageCount = 0\<rparr>) \<and>
   (\<exists>w'. send_all (value_receiver_call SenderA_Send_part000 senderA)
            [''message one'', ''message two'', ''message three''] initial_world = Inr w' \<and>
      varsA w' senderA = Some \<lparr>SenderA.FirstName = ''A'', MessageCount = 0\<rparr>)"
proof -
  have var: "varsA initial_world senderA = Some \<lparr>SenderA.FirstName = ''A'', MessageCount = 0\<rparr>"
    by (simp add: initial_world_def)
  from SenderA_Send_caller_unchanged [OF var,
      of "[''message one'', ''message two'', ''message three'']"] var
  show ?thesis by blast
qed

subsection \<open>Pointer receivers update the caller's struct\<close>

lemma SenderB_Send_effect:
  assumes "varsB w p = Some v"
  shows "SenderB_Send p m w =
    Inr (w\<lparr>varsB := (varsB w)(p \<mapsto> v\<lparr>SenderB.MessageCount := SenderB.MessageCount v + 1\<rparr>),
           stdout := stdout w @ ''Send '' @ fmt_d (SenderB.MessageCount v + 1) @ '' from ''
             @ SenderB.FirstName v @ '': '' @ m @ newline\<rparr>)"
  using assms by (simp add: SenderB_Send_def Let_def)

lemma send_all_SenderB:
  assumes "varsB w p = Some v"
  shows "\<exists>w'. send_all (SenderB_Send p) msgs w = Inr w' \<and>
           varsB w' p =
             Some (v\<lparr>SenderB.MessageCount := SenderB.MessageCount v + of_nat (length msgs)\<rparr>)"
  using assms
proof (induction msgs arbitrary: w v)
  case Nil
  then show ?case by simp
next
  case (Cons m msgs)
  define v1 where "v1 = v\<lparr>SenderB.MessageCount := SenderB.MessageCount v + 1\<rparr>"
  define w1 where "w1 = w\<lparr>varsB := (varsB w)(p \<mapsto> v1),
    stdout := stdout w @ ''Send '' @ fmt_d (SenderB.MessageCount v + 1) @ '' from ''
      @ SenderB.FirstName v @ '': '' @ m @ newline\<rparr>"
  have call: "SenderB_Send p m w = Inr w1"
    using SenderB_Send_effect [OF Cons.prems] by (simp add: w1_def v1_def)
  have "varsB w1 p = Some v1"
    by (simp add: w1_def)
  from Cons.IH [OF this] obtain w' where
    run: "send_all (SenderB_Send p) msgs w1 = Inr w'"
    and var: "varsB w' p =
      Some (v1\<lparr>SenderB.MessageCount := SenderB.MessageCount v1 + of_nat (length msgs)\<rparr>)"
    by blast
  have "v1\<lparr>SenderB.MessageCount := SenderB.MessageCount v1 + of_nat (length msgs)\<rparr> =
        v\<lparr>SenderB.MessageCount := SenderB.MessageCount v + of_nat (length (m # msgs))\<rparr>"
    by (simp add: v1_def add.assoc add.commute)
  with call run var show ?case by simp
qed

text \<open>
  Claim C9, as amended.  A call of the pointer-receiver \<^verbatim>\<open>Send\<close> on a \<^verbatim>\<open>SenderB\<close>
  variable returns, leaves \<^verbatim>\<open>FirstName\<close> as it was and adds one to the \<^verbatim>\<open>MessageCount\<close>
  of the caller's struct, provided the count is not the largest \<^verbatim>\<open>int\<close>; and after
  \<open>n\<close> calls on a sender whose count was 0, with \<open>n\<close> below \<open>2 ^ 63\<close>, the count is
  \<open>n\<close>.
\<close>

theorem SenderB_Send_increments:
  assumes "varsB w p = Some v"
  shows "(sint (SenderB.MessageCount v) \<noteq> 9223372036854775807 \<longrightarrow>
           (\<exists>w' v'. SenderB_Send p m w = Inr w' \<and> varsB w' p = Some v' \<and>
              sint (SenderB.MessageCount v') = sint (SenderB.MessageCount v) + 1 \<and>
              SenderB.FirstName v' = SenderB.FirstName v)) \<and>
         (SenderB.MessageCount v = 0 \<and> length msgs < 9223372036854775808 \<longrightarrow>
           (\<exists>w' v'. send_all (SenderB_Send p) msgs w = Inr w' \<and> varsB w' p = Some v' \<and>
              sint (SenderB.MessageCount v') = int (length msgs) \<and>
              SenderB.FirstName v' = SenderB.FirstName v))"
proof (intro conjI impI)
  assume "sint (SenderB.MessageCount v) \<noteq> 9223372036854775807"
  then have "sint (SenderB.MessageCount v + 1) = sint (SenderB.MessageCount v) + 1"
    by (rule sint_succ)
  then show "\<exists>w' v'. SenderB_Send p m w = Inr w' \<and> varsB w' p = Some v' \<and>
      sint (SenderB.MessageCount v') = sint (SenderB.MessageCount v) + 1 \<and>
      SenderB.FirstName v' = SenderB.FirstName v"
    using SenderB_Send_effect [OF assms, of m] by simp
next
  assume fresh: "SenderB.MessageCount v = 0 \<and> length msgs < 9223372036854775808"
  then have "sint (of_nat (length msgs) :: go_int) = int (length msgs)"
    by (simp add: sint_of_nat_small)
  with fresh show "\<exists>w' v'. send_all (SenderB_Send p) msgs w = Inr w' \<and> varsB w' p = Some v' \<and>
      sint (SenderB.MessageCount v') = int (length msgs) \<and>
      SenderB.FirstName v' = SenderB.FirstName v"
    using send_all_SenderB [OF assms, of msgs] by auto
qed

theorem SenderB_Send_increments_witness:
  "varsB initial_world senderB = Some \<lparr>SenderB.FirstName = ''B'', MessageCount = 0\<rparr> \<and>
   (\<exists>w' v'. SenderB_Send senderB ''message one'' initial_world = Inr w' \<and>
      varsB w' senderB = Some v' \<and> sint (SenderB.MessageCount v') = 1 \<and>
      SenderB.FirstName v' = ''B'') \<and>
   (\<exists>w' v'. send_all (SenderB_Send senderB)
        [''message one'', ''message two'', ''message three''] initial_world = Inr w' \<and>
      varsB w' senderB = Some v' \<and> sint (SenderB.MessageCount v') = 3 \<and>
      SenderB.FirstName v' = ''B'')"
proof -
  have var: "varsB initial_world senderB = Some \<lparr>SenderB.FirstName = ''B'', MessageCount = 0\<rparr>"
    by (simp add: initial_world_def)
  from SenderB_Send_increments [OF var, of "''message one''"
      "[''message one'', ''message two'', ''message three'']"] var
  show ?thesis by simp
qed

text \<open>
  Claim C9 as stated fails at the largest \<^verbatim>\<open>int\<close>: a call on a sender whose count is
  \<open>2 ^ 63 - 1\<close> leaves the count at \<open>- (2 ^ 63)\<close>, not at \<open>2 ^ 63\<close>.
\<close>

theorem SenderB_Send_wraps_counterexample:
  "countB senderB (SenderB_Send senderB ''message one'' max_count_world) =
     Some (- 9223372036854775808) \<and>
   countB senderB (SenderB_Send senderB ''message one'' max_count_world) \<noteq>
     Some (9223372036854775807 + 1)"
  by (simp add: countB_def SenderB_Send_def max_count_world_def Let_def)

subsection \<open>The two revisions of the senders\<close>

lemma SenderA_Send_printed:
  "printed (value_receiver_call SenderA_Send a m w) =
     (case varsA w a of
        None \<Rightarrow> None
      | Some s \<Rightarrow> Some (stdout w @ ''Send '' @ fmt_d (SenderA.MessageCount s + 1) @ '' from ''
                        @ SenderA.FirstName s @ '': '' @ m @ newline))"
  by (simp add: printed_def value_receiver_call_def SenderA_Send_def Let_def split: option.splits)

lemma SenderA_Send_part000_printed:
  "printed (value_receiver_call SenderA_Send_part000 a m w) =
     (case varsA w a of
        None \<Rightarrow> None
      | Some s \<Rightarrow> Some (stdout w @ ''Send from '' @ SenderA.FirstName s @ '': '' @ m @ newline))"
  by (simp add: printed_def value_receiver_call_def SenderA_Send_part000_def Let_def
      split: option.splits)

text \<open>
  Claim C4, as amended.  The pointer-receiver \<^verbatim>\<open>Send\<close> of \<^verbatim>\<open>SenderB\<close> is the same in
  both revisions: same output, same state afterwards.  The value-receiver \<^verbatim>\<open>Send\<close> of
  \<^verbatim>\<open>SenderA\<close> leaves the same state in both revisions apart from what is printed: one
  revision prints the incremented count of the copy, the other leaves the count out.
\<close>

theorem Send_revisions:
  "SenderB_Send_part000 p m w = SenderB_Send p m w \<and>
   map_sum id (\<lambda>w'. w'\<lparr>stdout := ''''\<rparr>) (value_receiver_call SenderA_Send_part000 a m w) =
     map_sum id (\<lambda>w'. w'\<lparr>stdout := ''''\<rparr>) (value_receiver_call SenderA_Send a m w) \<and>
   printed (value_receiver_call SenderA_Send a m w) =
     (case varsA w a of
        None \<Rightarrow> None
      | Some s \<Rightarrow> Some (stdout w @ ''Send '' @ fmt_d (SenderA.MessageCount s + 1) @ '' from ''
                        @ SenderA.FirstName s @ '': '' @ m @ newline)) \<and>
   printed (value_receiver_call SenderA_Send_part000 a m w) =
     (case varsA w a of
        None \<Rightarrow> None
      | Some s \<Rightarrow> Some (stdout w @ ''Send from '' @ SenderA.FirstName s @ '': '' @ m @ newline))"
proof (intro conjI)
  show "SenderB_Send_part000 p m w = SenderB_Send p m w"
    by (simp add: SenderB_Send_part000_def SenderB_Send_def)
  show "map_sum id (\<lambda>w'. w'\<lparr>stdout := ''''\<rparr>) (value_receiver_call SenderA_Send_part000 a m w) =
     map_sum id (\<lambda>w'. w'\<lparr>stdout := ''''\<rparr>) (value_receiver_call SenderA_Send a m w)"
    by (simp add: value_receiver_call_def SenderA_Send_part000_def SenderA_Send_def Let_def
        split: option.splits)
qed (rule SenderA_Send_printed SenderA_Send_part000_printed)+

text \<open>
  Claim C4 as stated fails for \<^verbatim>\<open>SenderA\<close>: on the package-level \<^verbatim>\<open>senderA\<close> and the
  message \<^verbatim>\<open>"message one"\<close> the two revisions print different lines.
\<close>

theorem Send_revisions_counterexample:
  "printed (value_receiver_call SenderA_Send senderA ''message one'' initial_world) =
     Some (''Send 1 from A: message one'' @ newline) \<and>
   printed (value_receiver_call SenderA_Send_part000 senderA ''message one'' initial_world) =
     Some (''Send from A: message one'' @ newline) \<and>
   printed (value_receiver_call SenderA_Send senderA ''message one'' initial_world) \<noteq>
     printed (value_receiver_call SenderA_Send_part000 senderA ''message one'' initial_world)"
  by (simp add: printed_def value_receiver_call_def SenderA_Send_def SenderA_Send_part000_def
      initial_world_def fmt_d_def digits.simps Let_def)

subsection \<open>The small structs of unnamed/part\_001\<close>

text \<open>
  Claim C10.  Called on a \<^verbatim>\<open>user\<close> variable, \<^verbatim>\<open>updateNameAndCopy\<close> returns a user whose
  \<^verbatim>\<open>firstName\<close> is the new name and leaves every variable, the receiver included, as it
  was; called on a pointer to a \<^verbatim>\<open>person\<close>, \<^verbatim>\<open>updateMyName\<close> sets the \<^verbatim>\<open>firstName\<close> of
  that very struct and touches no other.
\<close>

theorem update_name_receivers:
  "user.firstName (updateNameAndCopy u n) = n \<and>
   (users a = Some u \<longrightarrow>
      (\<exists>r. call_updateNameAndCopy a n users = Inr (r, users) \<and> user.firstName r = n \<and>
         users a = Some u)) \<and>
   (persons p = Some v \<longrightarrow>
      (\<exists>persons'. updateMyName p n persons = Inr persons' \<and>
         persons' p = Some (v\<lparr>person.firstName := n\<rparr>) \<and>
         (\<forall>q. q \<noteq> p \<longrightarrow> persons' q = persons q)))"
  by (simp add: updateNameAndCopy_def call_updateNameAndCopy_def updateMyName_def)

theorem update_name_receivers_witness:
  "user.firstName (updateNameAndCopy \<lparr>user.firstName = ''''\<rparr> ''alice'') = ''alice'' \<and>
   (\<exists>r. call_updateNameAndCopy 0 ''alice'' [0 \<mapsto> \<lparr>user.firstName = ''''\<rparr>] =
           Inr (r, [0 \<mapsto> \<lparr>user.firstName = ''''\<rparr>]) \<and> user.firstName r = ''alice'') \<and>
   (\<exists>persons'. updateMyName 0 ''jordan'' [0 \<mapsto> \<lparr>person.firstName = ''''\<rparr>] = Inr persons' \<and>
      persons' 0 = Some \<lparr>person.firstName = ''jordan''\<rparr>)"
proof -
  have u: "[0 \<mapsto> \<lparr>user.firstName = ''''\<rparr>] (0::addr) = Some \<lparr>user.firstName = ''''\<rparr>"
    and p: "[0 \<mapsto> \<lparr>person.firstName = ''''\<rparr>] (0::addr) = Some \<lparr>person.firstName = ''''\<rparr>"
    by simp_all
  note alice = update_name_receivers [of "\<lparr>user.firstName = ''''\<rparr>" "''alice''"
      "[0 \<mapsto> \<lparr>user.firstName = ''''\<rparr>]" 0 "[0 \<mapsto> \<lparr>person.firstName = ''''\<rparr>]" 0
      "\<lparr>person.firstName = ''''\<rparr>"]
  note jordan = update_name_receivers [of "\<lparr>user.firstName = ''''\<rparr>" "''jordan''"
      "[0 \<mapsto> \<lparr>user.firstName = ''''\<rparr>]" 0 "[0 \<mapsto> \<lparr>person.firstName = ''''\<rparr>]" 0
      "\<lparr>person.firstName = ''''\<rparr>"]
  from alice u have "\<exists>r. call_updateNameAndCopy 0 ''alice'' [0 \<mapsto> \<lparr>user.firstName = ''''\<rparr>] =
      Inr (r, [0 \<mapsto> \<lparr>user.firstName = ''''\<rparr>]) \<and> user.firstName r = ''alice''"
    by blast
  moreover from jordan p have
    "\<exists>persons'. updateMyName 0 ''jordan'' [0 \<mapsto> \<lparr>person.firstName = ''''\<rparr>] = Inr persons' \<and>
      persons' 0 = Some \<lparr>person.firstName = ''jordan''\<rparr>"
    by auto
  moreover from alice have
    "user.firstName (updateNameAndCopy \<lparr>user.firstName = ''''\<rparr> ''alice'') = ''alice''"
    by blast
  ultimately show ?thesis by blast
qed

subsection \<open>Failure of the connection setup\<close>

lemma main_part001_success:
  "main_part001 False False =
     [Stdout (''whizzbang!'' @ newline), Stdout (''whizzbang! more stuff '' @ newline),
      Stdout (''alice'' @ newline), Stdout (''jordan'' @ newline), ConnClose,
      Stdout (''I print after main returns and before whatever called main continues.'' @ newline),
      Stdout (''I print after main returns and before whatever called main continues.'' @ newline),
      OsExit 0]"
  by (simp add: main_part001_def connection_setup_def after_setup_def go_defer_def
      fmt_Println_def return_from_main_def call_updateNameAndCopy_def updateNameAndCopy_def
      updateMyName_def Let_def)

text \<open>
  Claim C6.  When \<^verbatim>\<open>sql.Open\<close> or \<^verbatim>\<open>db.Conn\<close> returns an error, the whole run of \<^verbatim>\<open>main\<close>
  is one logged message followed by the exit of the process with status 1: nothing is
  printed, neither by the code after the setup nor by the deferred calls, and the
  connection is never closed, let alone used.
\<close>

theorem setup_failure_terminates:
  assumes "open_err \<or> conn_err"
  shows "main_part001 open_err conn_err =
           [Log (if open_err then syntax_error_message else unreachable_message), OsExit 1] \<and>
         ConnClose \<notin> set (main_part001 open_err conn_err) \<and>
         (\<forall>s. Stdout s \<notin> set (main_part001 open_err conn_err))"
  using assms
  by (auto simp: main_part001_def connection_setup_def log_Fatal_def go_defer_def Let_def)

theorem setup_failure_terminates_witness:
  "(True \<or> False) \<and>
   main_part001 True False = [Log syntax_error_message, OsExit 1] \<and>
   main_part001 False True = [Log unreachable_message, OsExit 1] \<and>
   ConnClose \<notin> set (main_part001 False True)"
  using setup_failure_terminates [of True False] setup_failure_terminates [of False True]
  by simp

subsection \<open>Map lookups\<close>

lemma map_index_absent: "entries m key = None \<Longrightarrow> map_index zero m key = (zero, False)"
  by (simp add: map_index_def entries_def split: go_map.splits)

lemma map_index_present: "entries m key = Some v \<Longrightarrow> map_index zero m key = (v, True)"
  by (simp add: map_index_def entries_def split: go_map.splits)

text \<open>
  Claim C7.  A lookup never fails: for a key that the map does not hold (the \<^verbatim>\<open>nil\<close> map
  holds none) it gives the zero value of the value type, 0 for \<^verbatim>\<open>int\<close>, and a false
  flag; for a key that the map holds it gives the stored value and a true flag; the map
  is the same afterwards.  This is so for the lookup in general and for the two reads
  of the example.
\<close>

theorem map_lookup_miss_is_zero:
  "(entries m key = None \<longrightarrow> map_index zero m key = (zero, False)) \<and>
   (entries m key = Some v \<longrightarrow> map_index zero m key = (v, True)) \<and>
   nameToAge (read_age name l) = nameToAge l \<and>
   (entries (nameToAge l) name = None \<longrightarrow>
      bobAge (read_age name l) = 0 \<and> \<not> age_locals.keyExists (read_age name l)) \<and>
   (entries (nameToAge l) name = Some age \<longrightarrow>
      bobAge (read_age name l) = age \<and> age_locals.keyExists (read_age name l)) \<and>
   buddyMap (read_buddy usr b) = buddyMap b \<and>
   (entries (buddyMap b) usr = None \<longrightarrow>
      dorisBuddyUser (read_buddy usr b) = zero_User \<and>
      \<not> buddy_locals.keyExists (read_buddy usr b)) \<and>
   (entries (buddyMap b) usr = Some buddy \<longrightarrow>
      dorisBuddyUser (read_buddy usr b) = buddy \<and> buddy_locals.keyExists (read_buddy usr b))"
  by (simp add: read_age_def read_buddy_def map_index_absent map_index_present
      split: prod.splits)

theorem map_lookup_miss_is_zero_witness:
  "entries (nameToAge example_ages) ''Bob'' = Some 42 \<and>
   entries (nameToAge example_ages) ''Carol'' = None \<and>
   map_index 0 (nameToAge example_ages) ''Bob'' = (42, True) \<and>
   map_index 0 (nameToAge example_ages) ''Carol'' = (0, False) \<and>
   bobAge (read_age ''Bob'' example_ages) = 42 \<and>
   age_locals.keyExists (read_age ''Bob'' example_ages) \<and>
   bobAge (read_age ''Carol'' example_ages) = 0 \<and>
   \<not> age_locals.keyExists (read_age ''Carol'' example_ages) \<and>
   nameToAge (read_age ''Carol'' example_ages) = nameToAge example_ages"
proof -
  have bob: "entries (nameToAge example_ages) ''Bob'' = Some 42"
    and carol: "entries (nameToAge example_ages) ''Carol'' = None"
    by (simp_all add: example_ages_def entries_def)
  from bob carol
    map_lookup_miss_is_zero [of "nameToAge example_ages" "''Bob''" 0 42 "''Bob''" example_ages 42]
    map_lookup_miss_is_zero [of "nameToAge example_ages" "''Carol''" 0 0 "''Carol''" example_ages 0]
  show ?thesis by simp
qed

subsection \<open>The non-blocking send\<close>

lemma send_messages_append:
  "send_messages (before @ rest) st = send_messages rest (send_messages before st)"
  by (induction before arbitrary: st) auto

lemma receive_message_bounded:
  "length (messageChan st) \<le> n \<Longrightarrow> length (messageChan (receive_message st)) \<le> n"
  by (cases "messageChan st") (simp_all add: receive_message_def)

lemma receive_messages_bounded:
  "length (messageChan st) \<le> n \<Longrightarrow> length (messageChan ((receive_message ^^ k) st)) \<le> n"
  by (induction k) (simp_all add: receive_message_bounded)

lemma try_send_bounded:
  "length (messageChan st) \<le> messageChan_cap \<Longrightarrow>
   length (messageChan (try_send message st)) \<le> messageChan_cap"
  by (simp add: try_send_def)

lemma send_messages_bounded:
  "length (messageChan st) \<le> messageChan_cap \<Longrightarrow>
   length (messageChan (send_messages schedule st)) \<le> messageChan_cap"
proof (induction schedule arbitrary: st)
  case Nil
  then show ?case by simp
next
  case (Cons tm schedule)
  obtain k m where tm: "tm = (k, m)" by (cases tm)
  have "length (messageChan (try_send m ((receive_message ^^ k) st))) \<le> messageChan_cap"
    using Cons.prems by (intro try_send_bounded receive_messages_bounded)
  from Cons.IH [OF this] show ?case by (simp add: tm)
qed

text \<open>
  Claim C3.  Take any message of the loop, with the messages before and after it and
  any scheduling of the printing goroutine, and look at the channel when \<^verbatim>\<open>main\<close>
  reaches the \<^verbatim>\<open>select\<close> for it.  The loop always goes on to the next message, and
  exactly one of two things has happened: the channel had room and the message is
  now its newest element, nothing being printed by \<^verbatim>\<open>main\<close>; or the channel was full
  (it held as many messages as its capacity), it is unchanged and the drop notice for
  that message has been printed.
\<close>

theorem nonblocking_send_outcomes:
  assumes "length (messageChan st0) \<le> messageChan_cap"
    and "schedule = before @ (n, message) # after"
    and "at_send = (receive_message ^^ n) (send_messages before st0)"
    and "sent = try_send message at_send"
  shows "send_messages schedule st0 = send_messages after sent \<and>
         ((length (messageChan at_send) < messageChan_cap \<and>
             messageChan sent = messageChan at_send @ [message] \<and>
             printed_lines sent = printed_lines at_send) \<or>
          (length (messageChan at_send) = messageChan_cap \<and>
             messageChan sent = messageChan at_send \<and>
             printed_lines sent = printed_lines at_send @ [drop_notice message]))"
proof -
  have "length (messageChan at_send) \<le> messageChan_cap"
    unfolding assms(3) using assms(1)
    by (intro receive_messages_bounded send_messages_bounded)
  then have "(length (messageChan at_send) < messageChan_cap \<and>
             messageChan sent = messageChan at_send @ [message] \<and>
             printed_lines sent = printed_lines at_send) \<or>
          (length (messageChan at_send) = messageChan_cap \<and>
             messageChan sent = messageChan at_send \<and>
             printed_lines sent = printed_lines at_send @ [drop_notice message])"
    by (auto simp: assms(4) try_send_def)
  moreover have "send_messages schedule st0 = send_messages after sent"
    by (simp add: assms(2-4) send_messages_append)
  ultimately show ?thesis by blast
qed

theorem nonblocking_send_outcomes_witness:
  "length (messageChan messaging_start) \<le> messageChan_cap \<and>
   send_messages (map (Pair 0) messages) messaging_start =
     send_messages (map (Pair 0) [''whack'', ''bang'', ''pop'', ''zow''])
       (try_send ''wham'' (send_messages (map (Pair 0) [''foo'', ''bar'', ''bazz'']) messaging_start)) \<and>
   length (messageChan (send_messages (map (Pair 0) [''foo'', ''bar'', ''bazz'']) messaging_start)) =
     messageChan_cap \<and>
   messageChan (try_send ''wham''
       (send_messages (map (Pair 0) [''foo'', ''bar'', ''bazz'']) messaging_start)) =
     [''foo'', ''bar'', ''bazz''] \<and>
   printed_lines (try_send ''wham''
       (send_messages (map (Pair 0) [''foo'', ''bar'', ''bazz'']) messaging_start)) =
     [''messageChan full, dropping message: wham'']"
proof -
  have start: "length (messageChan messaging_start) \<le> messageChan_cap"
    by (simp add: messaging_start_def)
  have split: "map (Pair 0) messages =
      map (Pair 0) [''foo'', ''bar'', ''bazz''] @ (0, ''wham'')
        # map (Pair 0) [''whack'', ''bang'', ''pop'', ''zow'']"
    by (simp add: messages_def)
  have at_send: "send_messages (map (Pair 0) [''foo'', ''bar'', ''bazz'']) messaging_start =
      (receive_message ^^ 0)
        (send_messages (map (Pair 0) [''foo'', ''bar'', ''bazz'']) messaging_start)"
    by simp
  have full: "messageChan
      (send_messages (map (Pair 0) [''foo'', ''bar'', ''bazz'']) messaging_start) =
      [''foo'', ''bar'', ''bazz'']"
    and quiet: "printed_lines
      (send_messages (map (Pair 0) [''foo'', ''bar'', ''bazz'']) messaging_start) = []"
    by (simp_all add: messaging_start_def try_send_def messageChan_cap_def)
  from nonblocking_send_outcomes [OF start split at_send refl] start full quiet
  show ?thesis by (simp add: messageChan_cap_def drop_notice_def)
qed

lemma try_send_foo_outcomes:
  "(length (messageChan st) < 1024 \<longrightarrow>
      messageChan (try_send_foo st) = messageChan st @ [''foo''] \<and>
      printed_lines (try_send_foo st) = printed_lines st @ [''sent a message'']) \<and>
   (\<not> length (messageChan st) < 1024 \<longrightarrow>
      messageChan (try_send_foo st) = messageChan st \<and>
      printed_lines (try_send_foo st) = printed_lines st @ [''channel is full!''])"
  by (simp add: try_send_foo_def)

subsection \<open>The spammer\<close>

lemma slice_index_in_set: "slice_index xs i = Inr v \<Longrightarrow> v \<in> set xs"
  by (auto simp: slice_index_def split: if_splits)

lemma slice_index_in_range:
  "0 \<le> sint i \<Longrightarrow> sint i < int (length xs) \<Longrightarrow> \<exists>v. slice_index xs i = Inr v"
  by (simp add: slice_index_def)

lemma stockSymbolSpammer_sends:
  "\<exists>sent. fst (stockSymbolSpammer draws stockChan) = stockChan @ sent \<and>
     set sent \<subseteq> set stockSymbols \<and>
     ((\<forall>r \<in> set draws. 0 \<le> sint r \<and> sint r < 4) \<longrightarrow>
        snd (stockSymbolSpammer draws stockChan) = None \<and> length sent = length draws)"
proof (induction draws arbitrary: stockChan)
  case Nil
  then show ?case by simp
next
  case (Cons r draws)
  show ?case
  proof (cases "slice_index stockSymbols r")
    case (Inl e)
    then have "\<not> (0 \<le> sint r \<and> sint r < 4)"
      by (auto simp: slice_index_def stockSymbols_def split: if_splits)
    with Inl show ?thesis by auto
  next
    case (Inr randomStock)
    then have mem: "randomStock \<in> set stockSymbols"
      by (rule slice_index_in_set)
    from Cons.IH [of "stockChan @ [randomStock]"] obtain sent where
      sent: "fst (stockSymbolSpammer draws (stockChan @ [randomStock])) =
        (stockChan @ [randomStock]) @ sent"
      "set sent \<subseteq> set stockSymbols"
      "(\<forall>r \<in> set draws. 0 \<le> sint r \<and> sint r < 4) \<longrightarrow>
        snd (stockSymbolSpammer draws (stockChan @ [randomStock])) = None \<and>
        length sent = length draws"
      by blast
    show ?thesis
    proof (intro exI [of _ "randomStock # sent"] conjI impI)
      show "fst (stockSymbolSpammer (r # draws) stockChan) = stockChan @ randomStock # sent"
        using Inr sent(1) by simp
      show "set (randomStock # sent) \<subseteq> set stockSymbols"
        using mem sent(2) by simp
    next
      assume "\<forall>r \<in> set (r # draws). 0 \<le> sint r \<and> sint r < 4"
      then have "\<forall>r \<in> set draws. 0 \<le> sint r \<and> sint r < 4" by simp
      with sent(3) Inr show "snd (stockSymbolSpammer (r # draws) stockChan) = None"
        and "length (randomStock # sent) = length (r # draws)"
        by simp_all
    qed
  qed
qed

lemma one_worker_per_symbol:
  "v \<in> set stockSymbols \<Longrightarrow> length (filter (\<lambda>ticker. ticker = v) worker_tickers) = 1"
  by (auto simp: stockSymbols_def worker_tickers_def)

text \<open>
  Claim C5.  Whatever numbers the random source returns, the values a spammer puts on
  the stock channel, after those already there, are all among \<^verbatim>\<open>"AAPL"\<close>, \<^verbatim>\<open>"GOOG"\<close>,
  \<^verbatim>\<open>"FB"\<close> and \<^verbatim>\<open>"AMZN"\<close>, and each of them is the ticker of exactly one of the four
  workers.  When the numbers are in range, as \<^verbatim>\<open>rand.Intn(4)\<close> promises, the spammer
  does not panic and sends one value per turn.
\<close>

theorem spammer_sends_known_symbols:
  "\<exists>sent. fst (stockSymbolSpammer draws stockChan) = stockChan @ sent \<and>
     set sent \<subseteq> {''AAPL'', ''GOOG'', ''FB'', ''AMZN''} \<and>
     (\<forall>v \<in> set sent. length (filter (\<lambda>ticker. ticker = v) worker_tickers) = 1) \<and>
     ((\<forall>r \<in> set draws. 0 \<le> sint r \<and> sint r < 4) \<longrightarrow>
        snd (stockSymbolSpammer draws stockChan) = None \<and> length sent = length draws)"
proof -
  obtain sent where sent: "fst (stockSymbolSpammer draws stockChan) = stockChan @ sent"
    "set sent \<subseteq> set stockSymbols"
    "(\<forall>r \<in> set draws. 0 \<le> sint r \<and> sint r < 4) \<longrightarrow>
        snd (stockSymbolSpammer draws stockChan) = None \<and> length sent = length draws"
    using stockSymbolSpammer_sends by blast
  have "set sent \<subseteq> {''AAPL'', ''GOOG'', ''FB'', ''AMZN''}"
    using sent(2) by (simp add: stockSymbols_def)
  moreover have "\<forall>v \<in> set sent. length (filter (\<lambda>ticker. ticker = v) worker_tickers) = 1"
    using sent(2) one_worker_per_symbol by blast
  ultimately show ?thesis using sent(1,3) by blast
qed

theorem spammer_sends_known_symbols_witness:
  "set [0, 3, 2, 1, 1 :: go_int] \<subseteq> {r. 0 \<le> sint r \<and> sint r < 4} \<and>
   stockSymbolSpammer [0, 3, 2, 1, 1] [] = ([''AAPL'', ''AMZN'', ''FB'', ''GOOG'', ''GOOG''], None) \<and>
   (\<exists>sent. fst (stockSymbolSpammer [0, 3, 2, 1, 1] []) = [] @ sent \<and>
      set sent \<subseteq> {''AAPL'', ''GOOG'', ''FB'', ''AMZN''} \<and>
      (\<forall>v \<in> set sent. length (filter (\<lambda>ticker. ticker = v) worker_tickers) = 1) \<and>
      length sent = length [0, 3, 2, 1, 1 :: go_int])"
proof -
  have range: "\<forall>r \<in> set [0, 3, 2, 1, 1 :: go_int]. 0 \<le> sint r \<and> sint r < 4"
    by simp
  have run: "stockSymbolSpammer [0, 3, 2, 1, 1] [] =
      ([''AAPL'', ''AMZN'', ''FB'', ''GOOG'', ''GOOG''], None)"
    by (simp add: slice_index_def stockSymbols_def)
  have "set [0, 3, 2, 1, 1 :: go_int] \<subseteq> {r. 0 \<le> sint r \<and> sint r < 4}"
    by simp
  with spammer_sends_known_symbols [of "[0, 3, 2, 1, 1]" "[]"] range run
  show ?thesis by blast
qed

subsection \<open>The emoji worker\<close>

lemma stockEmojiWorker_done_once:
  "snd (stockEmojiWorker stockChan doneChan ticker icon maxEmojis) = doneChan @ [True]"
  by (simp add: stockEmojiWorker_def Let_def)

text \<open>
  The tally never goes further than one beyond the cap: the count is checked against
  \<^verbatim>\<open>maxEmojis\<close> only after it has been incremented.
\<close>

lemma worker_loop_tally_bound:
  "sint (emojiCount st) \<le> sint maxEmojis \<Longrightarrow>
   sint (emojiCount (worker_loop ticker icon maxEmojis stockChan st)) \<le> sint maxEmojis + 1"
proof (induction stockChan arbitrary: st)
  case Nil
  then show ?case by simp
next
  case (Cons stockSymbol stockChan)
  show ?case
  proof (cases "stockSymbol = ticker")
    case False
    with Cons.prems have "\<not> maxEmojis <s emojiCount st"
      by (simp add: word_sless_alt)
    with False Cons.prems show ?thesis
      using Cons.IH [of "st\<lparr>received := received st + 1\<rparr>"] by (simp add: Let_def)
  next
    case True
    define st1 where
      "st1 = st\<lparr>received := received st + 1, emojiCount := emojiCount st + 1,
        icons := icons st @ icon\<rparr>"
    have step: "worker_loop ticker icon maxEmojis (stockSymbol # stockChan) st =
        (if maxEmojis <s emojiCount st1 then st1
         else worker_loop ticker icon maxEmojis stockChan st1)"
      using True by (simp add: st1_def Let_def)
    have count: "emojiCount st1 = emojiCount st + 1"
      by (simp add: st1_def)
    show ?thesis
    proof (cases "maxEmojis <s emojiCount st1")
      case stop: True
      have "sint (emojiCount st) \<noteq> 9223372036854775807"
      proof
        assume "sint (emojiCount st) = 9223372036854775807"
        then have "sint (emojiCount st + 1) = - 9223372036854775808"
          by (rule sint_succ_max)
        moreover have "- 9223372036854775808 \<le> sint maxEmojis"
          using sint_ge [of maxEmojis] by simp
        ultimately show False
          using stop by (simp add: count word_sless_alt)
      qed
      then have "sint (emojiCount st1) = sint (emojiCount st) + 1"
        unfolding count by (rule sint_succ)
      with Cons.prems stop show ?thesis
        unfolding step by simp
    next
      case go: False
      then have "sint (emojiCount st1) \<le> sint maxEmojis"
        by (simp add: word_sless_alt)
      from Cons.IH [OF this] go show ?thesis
        unfolding step by simp
    qed
  qed
qed

text \<open>
  Claim C1.  The worker signals completion exactly once, but its tally goes one beyond
  the cap: with the cap 1 and three matching symbols on the channel it takes two of
  them, counts 2 and prints two icons before it stops.
\<close>

theorem stockEmojiWorker_exceeds_cap:
  "stockEmojiWorker [''AAPL'', ''AAPL'', ''AAPL''] [] ''AAPL'' icon 1 =
     (\<lparr>emojiCount = 2, icons = icon @ icon, received = 2\<rparr>, [True]) \<and>
   sint (1 :: go_int) < sint (emojiCount (fst (stockEmojiWorker [''AAPL'', ''AAPL'', ''AAPL''] []
     ''AAPL'' icon 1)))"
  by (simp add: stockEmojiWorker_def Let_def word_sless_alt)

subsection \<open>The driver loop\<close>

lemma of_nat_Suc_eq_4:
  assumes "f < 4"
  shows "(1 + of_nat f = (4 :: go_int)) = (f = 3)"
proof -
  from assms consider "f = 0" | "f = 1" | "f = 2" | "f = 3" by linarith
  then show ?thesis by cases simp_all
qed

lemma driver_loop_from:
  assumes "f < 4"
  shows "driver_loop 4 arrivals
           \<lparr>finishedWorkers = of_nat f, exitMessage = e, returned = False, turns = t\<rparr> =
         (let k = length (takeWhile (\<lambda>c. c = FromWorkerDoneChan) arrivals)
          in if 4 \<le> f + k then
               \<lparr>finishedWorkers = 4,
                exitMessage = newline @ newline @ ''heard from all the workers'',
                returned = True, turns = t + (4 - f)\<rparr>
             else if k < length arrivals then
               \<lparr>finishedWorkers = of_nat (f + k),
                exitMessage = newline @ newline @ ''got a timeout message'',
                returned = True, turns = t + k + 1\<rparr>
             else \<lparr>finishedWorkers = of_nat (f + k), exitMessage = e, returned = False,
                   turns = t + k\<rparr>)"
  using assms
proof (induction arrivals arbitrary: f t)
  case Nil
  then show ?case by simp
next
  case (Cons c arrivals)
  show ?case
  proof (cases c)
    case FromTickerChan
    with Cons.prems show ?thesis by simp
  next
    case FromWorkerDoneChan
    show ?thesis
    proof (cases "f = 3")
      case True
      then show ?thesis
        using FromWorkerDoneChan by (simp add: Let_def)
    next
      case False
      with Cons.prems have less: "Suc f < 4" by simp
      have ne: "1 + of_nat f \<noteq> (4 :: go_int)"
        using of_nat_Suc_eq_4 [OF Cons.prems] False by simp
      have step: "driver_loop 4 (c # arrivals)
           \<lparr>finishedWorkers = of_nat f, exitMessage = e, returned = False, turns = t\<rparr> =
         driver_loop 4 arrivals
           \<lparr>finishedWorkers = of_nat (Suc f), exitMessage = e, returned = False, turns = t + 1\<rparr>"
        using FromWorkerDoneChan ne by (simp add: Let_def add.commute)
      show ?thesis
        unfolding step Cons.IH [OF less]
        using FromWorkerDoneChan less by (auto simp: Let_def)
    qed
  qed
qed

text \<open>
  Claim C2.  Let \<open>k\<close> be the number of completion messages that arrive before the
  first message of the timeout ticker.  With four or more of them, the loop returns in
  its fourth turn, having heard from all the workers.  With fewer than four followed by
  a ticker message, it returns in the turn of that message, with the timeout.  With
  fewer than four and nothing else yet, it has not returned: it has taken every
  arrival and is waiting for the next.  The loop has returned in these first two cases
  only.
\<close>

theorem driver_returns_exactly:
  assumes "k = length (takeWhile (\<lambda>c. c = FromWorkerDoneChan) arrivals)"
  shows "(returned (main_driver arrivals) \<longleftrightarrow> 4 \<le> k \<or> k < length arrivals) \<and>
         (4 \<le> k \<longrightarrow>
            turns (main_driver arrivals) = 4 \<and>
            exitMessage (main_driver arrivals) = newline @ newline @ ''heard from all the workers'') \<and>
         (k < 4 \<and> k < length arrivals \<longrightarrow>
            turns (main_driver arrivals) = k + 1 \<and>
            exitMessage (main_driver arrivals) = newline @ newline @ ''got a timeout message'') \<and>
         (k < 4 \<and> k = length arrivals \<longrightarrow>
            \<not> returned (main_driver arrivals) \<and> turns (main_driver arrivals) = k \<and>
            sint (finishedWorkers (main_driver arrivals)) = int k)"
proof -
  have run: "main_driver arrivals =
    (let k = length (takeWhile (\<lambda>c. c = FromWorkerDoneChan) arrivals)
          in if 4 \<le> k then
               \<lparr>finishedWorkers = 4,
                exitMessage = newline @ newline @ ''heard from all the workers'',
                returned = True, turns = 4\<rparr>
             else if k < length arrivals then
               \<lparr>finishedWorkers = of_nat k,
                exitMessage = newline @ newline @ ''got a timeout message'',
                returned = True, turns = k + 1\<rparr>
             else \<lparr>finishedWorkers = of_nat k, exitMessage = '''', returned = False,
                   turns = k\<rparr>)"
    using driver_loop_from [of 0 arrivals "''''" 0] by (simp add: main_driver_def Let_def)
  have len: "k \<le> length arrivals"
    unfolding assms by (rule length_takeWhile_le)
  have small: "k < 4 \<Longrightarrow> sint (of_nat k :: go_int) = int k"
    by (rule sint_of_nat_small) simp
  show ?thesis
    unfolding run assms [symmetric] Let_def using len small by auto
qed

theorem driver_returns_exactly_witness:
  "returned (main_driver [FromWorkerDoneChan, FromWorkerDoneChan, FromTickerChan,
      FromWorkerDoneChan]) \<and>
   turns (main_driver [FromWorkerDoneChan, FromWorkerDoneChan, FromTickerChan,
      FromWorkerDoneChan]) = 3 \<and>
   returned (main_driver [FromWorkerDoneChan, FromWorkerDoneChan, FromWorkerDoneChan,
      FromWorkerDoneChan, FromTickerChan]) \<and>
   turns (main_driver [FromWorkerDoneChan, FromWorkerDoneChan, FromWorkerDoneChan,
      FromWorkerDoneChan, FromTickerChan]) = 4 \<and>
   \<not> returned (main_driver [FromWorkerDoneChan, FromWorkerDoneChan, FromWorkerDoneChan]) \<and>
   turns (main_driver [FromWorkerDoneChan, FromWorkerDoneChan, FromWorkerDoneChan]) = 3"
  using
    driver_returns_exactly [of 2 "[FromWorkerDoneChan, FromWorkerDoneChan, FromTickerChan,
      FromWorkerDoneChan]"]
    driver_returns_exactly [of 4 "[FromWorkerDoneChan, FromWorkerDoneChan, FromWorkerDoneChan,
      FromWorkerDoneChan, FromTickerChan]"]
    driver_returns_exactly [of 3 "[FromWorkerDoneChan, FromWorkerDoneChan, FromWorkerDoneChan]"]
  by simp

end
